theory Spec2Isabelle
  imports Complex_Main "HOL-Library.Multiset" "HOL-Library.AList"
begin

section \<open>Errors\<close>

text \<open>
  The array utilities signal misuse with \<^verbatim>\<open>throw new Error(...)\<close>; the two messages are
  \<^verbatim>\<open>'... must have the same length'\<close> (\<open>LengthMismatch\<close>) and
  \<^verbatim>\<open>'Weights must be non-negative'\<close> (\<open>InvalidWeight\<close>). The object utilities throw
  nothing themselves, but the operators they use (\<^verbatim>\<open>in\<close>, property access and assignment
  on \<^verbatim>\<open>null\<close>) raise the runtime's \<open>TypeError\<close>. A result is \<open>error + 'a\<close>, with
  \<open>Inl\<close> for the exception.

  \<open>OutsideModel\<close> is no exception of the program: it marks an assignment whose result is
  an object that the value type below cannot hold (see \<open>put_prop\<close>).
\<close>

datatype error = LengthMismatch | InvalidWeight | TypeError | OutsideModel

section \<open>Weighted sampling (utils/arrayUtils.ts)\<close>

text \<open>
  Numbers (weights, draws, the requested size) are modelled as reals (rounding, infinities
  and NaN of the double format are left out). The element type \<open>'a\<close> stands for the
  values of the type parameter \<^verbatim>\<open>T\<close>; a result of type \<^verbatim>\<open>T | undefined\<close> is an
  \<open>'a option\<close>, with \<open>None\<close> for the \<^verbatim>\<open>undefined\<close> that means "no result" and
  \<open>Some x\<close> for the item \<open>x\<close>. (An item may itself be \<^verbatim>\<open>undefined\<close> or NaN;
  where the code looks at that, in \<^verbatim>\<open>weightedSampleSizeWithoutReplacement\<close>, the model
  asks the function \<open>kind\<close> introduced there.)

  \<^verbatim>\<open>Math.random()\<close> is a parameter: \<open>u\<close> is the number the call would return.
  The runtime promises \<open>0 \<le> u < 1\<close>; the model accepts any real, so that a draw which
  rounding places above the last cumulative sum is covered as well.
\<close>

text \<open>
  The loop \<^verbatim>\<open>for (i = 0; i < array.length; i++)\<close> of \<^verbatim>\<open>weightedSample\<close>. It is
  reached with sequences of equal length only, and walks both in step; \<open>None\<close> means that
  the loop ran to its end without returning.
\<close>

fun sample_loop :: "real \<Rightarrow> 'a list \<Rightarrow> real list \<Rightarrow> real \<Rightarrow> 'a option" where
  "sample_loop random (x # xs) (w # ws) cumulativeWeight =
     (if random \<le> cumulativeWeight + w then Some x
      else sample_loop random xs ws (cumulativeWeight + w))"
| "sample_loop random _ _ cumulativeWeight = None"

definition weightedSample :: "real \<Rightarrow> 'a list \<Rightarrow> real list \<Rightarrow> error + 'a option" where
  "weightedSample u array weights =
     (if array = [] \<or> weights = [] then Inr None
      else if length array \<noteq> length weights then Inl LengthMismatch
      else if list_ex (\<lambda>w. w < 0) weights then Inl InvalidWeight
      else
        let totalWeight = foldl (\<lambda>sum weight. sum + weight) 0 weights in
        if totalWeight = 0 then Inr None
        else
          let random = u * totalWeight in
          (case sample_loop random array weights 0 of
             Some x \<Rightarrow> Inr (Some x)
           | None \<Rightarrow> Inr (Some (last array))))"

text \<open>
  Two values of \<^verbatim>\<open>T\<close> are the same value when they are equal in HOL. The code
  looks at an item in two places, and what it sees there is given by the parameter
  \<open>kind\<close>: strict equality \<^verbatim>\<open>===\<close> holds between a value and itself, except for
  NaN, which differs from itself; and the test \<^verbatim>\<open>sample !== undefined\<close> fails for an
  item that is itself \<^verbatim>\<open>undefined\<close>, as it does when there is no result.
\<close>

datatype item_kind = Plain | IsNaN | IsUndefined

definition triple_equals :: "('a \<Rightarrow> item_kind) \<Rightarrow> 'a \<Rightarrow> 'a \<Rightarrow> bool" where
  "triple_equals kind x y = (x = y \<and> kind x \<noteq> IsNaN)"

text \<open>
  \<^verbatim>\<open>Array.prototype.indexOf\<close>: the first index whose element is \<^verbatim>\<open>===\<close> to the
  value, or \<open>-1\<close>; NaN is never found.
\<close>

fun indexOf_from :: "('a \<Rightarrow> item_kind) \<Rightarrow> 'a list \<Rightarrow> 'a \<Rightarrow> int \<Rightarrow> int" where
  "indexOf_from kind [] x i = - 1"
| "indexOf_from kind (y # ys) x i =
     (if triple_equals kind y x then i else indexOf_from kind ys x (i + 1))"

definition indexOf :: "('a \<Rightarrow> item_kind) \<Rightarrow> 'a list \<Rightarrow> 'a \<Rightarrow> int" where
  "indexOf kind xs x = indexOf_from kind xs x 0"

text \<open>
  \<^verbatim>\<open>xs.splice(start, 1)\<close>: a negative start counts from the end, the start is clamped to
  the array, and at most one element is removed there.
\<close>

definition splice1 :: "int \<Rightarrow> 'a list \<Rightarrow> 'a list" where
  "splice1 start xs =
     (let len = int (length xs);
          s = (if start < 0 then max (len + start) 0 else min start len)
      in take (nat s) xs @ drop (nat s + 1) xs)"

text \<open>
  The loop of \<^verbatim>\<open>weightedSampleSizeWithoutReplacement\<close>,
  \<^verbatim>\<open>for (let i = 0; i < Math.min(n, array.length); i++)\<close>. The counter \<open>i\<close> is a
  whole number, the bound \<open>Math.min(n, array.length)\<close> any real, since the requested size
  \<open>n\<close> is any number: a fractional bound gives one round for every whole number below
  it. \<open>rnd i\<close> is the number \<^verbatim>\<open>Math.random()\<close> yields in round \<open>i\<close>, if that round
  asks for one.
\<close>

function without_replacement_loop ::
  "('a \<Rightarrow> item_kind) \<Rightarrow> (int \<Rightarrow> real) \<Rightarrow> int \<Rightarrow> real \<Rightarrow> 'a list \<Rightarrow> real list
     \<Rightarrow> 'a list \<Rightarrow> error + 'a list" where
  "without_replacement_loop kind rnd i bound availableItems availableWeights result =
     (if real_of_int i < bound then
        (case weightedSample (rnd i) availableItems availableWeights of
           Inl e \<Rightarrow> Inl e
         | Inr None \<Rightarrow>
             without_replacement_loop kind rnd (i + 1) bound availableItems availableWeights
               result
         | Inr (Some sample) \<Rightarrow>
             (if kind sample \<noteq> IsUndefined then
                (let index = indexOf kind availableItems sample in
                 without_replacement_loop kind rnd (i + 1) bound
                   (splice1 index availableItems) (splice1 index availableWeights)
                   (result @ [sample]))
              else
                without_replacement_loop kind rnd (i + 1) bound availableItems
                  availableWeights result))
      else Inr result)"
  by pat_completeness auto
termination
  by (relation "measure (\<lambda>(kind, rnd, i, bound, items, weights, result). nat (\<lceil>bound\<rceil> - i))")
    (auto simp: less_ceiling_iff)

definition weightedSampleSizeWithoutReplacement ::
  "('a \<Rightarrow> item_kind) \<Rightarrow> (int \<Rightarrow> real) \<Rightarrow> 'a list \<Rightarrow> real list \<Rightarrow> real
     \<Rightarrow> error + 'a list" where
  "weightedSampleSizeWithoutReplacement kind rnd array weights n =
     (if n \<le> 0 then Inr []
      else if array = [] \<or> weights = [] then Inr []
      else if length array \<noteq> length weights then Inl LengthMismatch
      else without_replacement_loop kind rnd 0 (min n (real (length array))) array weights [])"

section \<open>Weighted aggregates (utils/arrayUtils.ts)\<close>

text \<open>
  \<^verbatim>\<open>values.reduce((sum, value, index) => sum + value * weights[index]!, 0)\<close>: a left fold
  over the values paired with their indices. It is reached with equal lengths, so every
  \<open>weights ! index\<close> is in range.
\<close>

definition reduce_weighted :: "real list \<Rightarrow> real list \<Rightarrow> real" where
  "reduce_weighted values weights =
     foldl (\<lambda>sum (value, index). sum + value * weights ! index) 0
       (zip values [0 ..< length values])"

definition weightedAverage :: "real list \<Rightarrow> real list \<Rightarrow> error + real" where
  "weightedAverage values weights =
     (if values = [] \<or> weights = [] then Inr 0
      else if length values \<noteq> length weights then Inl LengthMismatch
      else
        let weightedSum = reduce_weighted values weights;
            totalWeight = foldl (\<lambda>sum weight. sum + weight) 0 weights
        in Inr (if totalWeight = 0 then 0 else weightedSum / totalWeight))"

definition weightedSum :: "real list \<Rightarrow> real list \<Rightarrow> error + real" where
  "weightedSum values weights =
     (if values = [] \<or> weights = [] then Inr 0
      else if length values \<noteq> length weights then Inl LengthMismatch
      else Inr (reduce_weighted values weights))"

text \<open>
  The \<^verbatim>\<open>Map<T, number>\<close> of \<^verbatim>\<open>weightedFrequency\<close> is an association list in insertion
  order: \<^verbatim>\<open>frequency.get(item) || 0\<close> reads it, \<^verbatim>\<open>frequency.set\<close> replaces the entry
  of a key in place or appends a new one.
\<close>

definition weightedFrequency :: "'a list \<Rightarrow> real list \<Rightarrow> error + ('a \<times> real) list" where
  "weightedFrequency array weights =
     (if length array \<noteq> length weights then Inl LengthMismatch
      else Inr (foldl
        (\<lambda>frequency (item, index).
           let currentWeight = (case map_of frequency item of Some w \<Rightarrow> w | None \<Rightarrow> 0)
           in AList.update item (currentWeight + weights ! index) frequency)
        [] (zip array [0 ..< length array])))"

text \<open>
  The scans of \<^verbatim>\<open>weightedMax\<close> and \<^verbatim>\<open>weightedMin\<close>:
  \<^verbatim>\<open>for (i = 1; i < weights.length; i++)\<close> over the pair (best weight, its index).
\<close>

definition weightedMax :: "'a list \<Rightarrow> real list \<Rightarrow> error + 'a option" where
  "weightedMax array weights =
     (if array = [] \<or> weights = [] then Inr None
      else if length array \<noteq> length weights then Inl LengthMismatch
      else
        let (maxWeight, maxIndex) =
          foldl (\<lambda>(maxWeight, maxIndex) i.
                   if weights ! i > maxWeight then (weights ! i, i) else (maxWeight, maxIndex))
            (weights ! 0, 0) [1 ..< length weights]
        in Inr (Some (array ! maxIndex)))"

definition weightedMin :: "'a list \<Rightarrow> real list \<Rightarrow> error + 'a option" where
  "weightedMin array weights =
     (if array = [] \<or> weights = [] then Inr None
      else if length array \<noteq> length weights then Inl LengthMismatch
      else
        let (minWeight, minIndex) =
          foldl (\<lambda>(minWeight, minIndex) i.
                   if weights ! i < minWeight then (weights ! i, i) else (minWeight, minIndex))
            (weights ! 0, 0) [1 ..< length weights]
        in Inr (Some (array ! minIndex)))"

text \<open>
  A random source that yields the same number at every draw, for concrete runs.
\<close>

definition const_draw :: "real \<Rightarrow> int \<Rightarrow> real" where
  "const_draw u i = u"

section \<open>Checksum validation (string utilities and utils/validationUtils.ts)\<close>

text \<open>
  \<^verbatim>\<open>str.replace(/\D/g, '')\<close> keeps the characters \<^verbatim>\<open>0\<close> to \<^verbatim>\<open>9\<close>;
  \<^verbatim>\<open>parseInt\<close> is applied to single characters of the cleaned string only, that is,
  to digits.
\<close>

definition is_digit :: "char \<Rightarrow> bool" where
  "is_digit c = (48 \<le> (of_char c :: nat) \<and> (of_char c :: nat) \<le> 57)"

definition parseInt :: "char \<Rightarrow> nat" where
  "parseInt c = of_char c - 48"

text \<open>
  The loop \<^verbatim>\<open>for (i = cleaned.length - 1; i >= 0; i--)\<close> walks the reversed string; its
  state is the running sum and the flag \<^verbatim>\<open>isEven\<close>.
\<close>

fun luhn_loop :: "string \<Rightarrow> nat \<Rightarrow> bool \<Rightarrow> nat" where
  "luhn_loop [] sum_acc isEven = sum_acc"
| "luhn_loop (c # cs) sum_acc isEven =
     (let digit = parseInt c;
          digit = (if isEven
                   then (let digit = digit * 2 in if digit > 9 then digit - 9 else digit)
                   else digit)
      in luhn_loop cs (sum_acc + digit) (\<not> isEven))"

definition isValidCreditCard :: "string \<Rightarrow> bool" where
  "isValidCreditCard str =
     (let cleaned = filter is_digit str in
      if length cleaned < 13 \<or> length cleaned > 19 then False
      else luhn_loop (rev cleaned) 0 False mod 10 = 0)"

text \<open>
  \<^verbatim>\<open>isCreditCard\<close> first asks \<^verbatim>\<open>isString(value)\<close>, which holds for every string.
\<close>

definition isCreditCard :: "string \<Rightarrow> bool" where
  "isCreditCard value =
     (let cleaned = filter is_digit value in
      if length cleaned < 13 \<or> length cleaned > 19 then False
      else luhn_loop (rev cleaned) 0 False mod 10 = 0)"

text \<open>
  The Luhn sum in the words of the specification, to compare the loop with: the digits are
  taken from right to left, every second one is doubled, 9 is subtracted where the doubling
  exceeds 9, and all are added up. Position 0 is the rightmost digit.
\<close>

definition digits_of :: "string \<Rightarrow> nat list" where
  "digits_of str = map parseInt (filter is_digit str)"

definition luhn_term :: "nat \<Rightarrow> nat \<Rightarrow> nat" where
  "luhn_term position d =
     (if odd position then (if 2 * d > 9 then 2 * d - 9 else 2 * d) else d)"

definition luhn_sum :: "nat list \<Rightarrow> nat" where
  "luhn_sum ds = (\<Sum>i < length ds. luhn_term i (rev ds ! i))"

section \<open>Composite values (utils/objectUtils.ts)\<close>

text \<open>
  The values the object utilities work on: primitives, and objects of five kinds (temporal
  instants, sequences, sets, maps and records). A number is a real or NaN; NaN is kept
  because \<^verbatim>\<open>===\<close> tells it apart from every number, itself included.

  An object is known by its reference. A value is represented by its finite unfolding, a
  tree in which every object node carries its reference: \<^verbatim>\<open>===\<close> on two objects
  compares the references. Cyclic structures have no such unfolding and are left out, and
  so is the limit that the call stack puts on the depth of a value.
  A \<^verbatim>\<open>Date\<close> holds the number \<^verbatim>\<open>getTime()\<close> returns (NaN for an invalid date), a
  set its elements and a map its entries in insertion order, a record its own enumerable
  properties in the order of \<^verbatim>\<open>Object.keys\<close> (the keys of a record are pairwise
  distinct). Prototypes and the properties inherited from them are not modelled.
\<close>

datatype jsnum = Finite real | NaN

datatype prim = PUndefined | PNull | PBool bool | PNum jsnum | PStr string

type_synonym ref = nat

datatype jsval =
    is_Prim: Prim prim
  | is_Date: JDate ref (getTime: jsnum)
  | is_Array: JArray ref (elements: "jsval list")
  | JSet ref "jsval list"
  | JMap ref "(jsval \<times> jsval) list"
  | JObject ref "(string \<times> jsval) list"

datatype jstype = TUndefined | TObject | TBoolean | TNumber | TString

fun typeof :: "jsval \<Rightarrow> jstype" where
  "typeof (Prim PUndefined) = TUndefined"
| "typeof (Prim PNull) = TObject"
| "typeof (Prim (PBool b)) = TBoolean"
| "typeof (Prim (PNum x)) = TNumber"
| "typeof (Prim (PStr s)) = TString"
| "typeof _ = TObject"

text \<open>Strict equality \<^verbatim>\<open>===\<close>.\<close>

fun num_equal :: "jsnum \<Rightarrow> jsnum \<Rightarrow> bool" where
  "num_equal (Finite x) (Finite y) = (x = y)"
| "num_equal _ _ = False"

fun prim_equal :: "prim \<Rightarrow> prim \<Rightarrow> bool" where
  "prim_equal (PNum x) (PNum y) = num_equal x y"
| "prim_equal p q = (p = q)"

fun ref_of :: "jsval \<Rightarrow> ref option" where
  "ref_of (Prim p) = None"
| "ref_of (JDate r t) = Some r"
| "ref_of (JArray r xs) = Some r"
| "ref_of (JSet r xs) = Some r"
| "ref_of (JMap r es) = Some r"
| "ref_of (JObject r ps) = Some r"

fun strict_equal :: "jsval \<Rightarrow> jsval \<Rightarrow> bool" where
  "strict_equal (Prim p) (Prim q) = prim_equal p q"
| "strict_equal (Prim p) b = False"
| "strict_equal a (Prim q) = False"
| "strict_equal a b = (ref_of a = ref_of b)"

subsection \<open>deepClone\<close>

text \<open>
  Creating an object (\<^verbatim>\<open>new Date\<close>, the array \<^verbatim>\<open>map\<close> returns, \<^verbatim>\<open>new Set\<close>,
  \<^verbatim>\<open>new Map\<close>, \<^verbatim>\<open>{}\<close>) takes a reference that no object has yet. The allocator is
  a counter passed through the computation: \<open>n\<close> is the next free reference, and a
  function that allocates returns the counter after it.

  \<open>map_st\<close> is \<^verbatim>\<open>xs.map(f)\<close> (and \<^verbatim>\<open>forEach\<close>) for an \<open>f\<close> that allocates: the
  elements are visited from left to right.
\<close>

fun map_st :: "('a \<Rightarrow> nat \<Rightarrow> 'b \<times> nat) \<Rightarrow> 'a list \<Rightarrow> nat \<Rightarrow> 'b list \<times> nat" where
  "map_st f [] n = ([], n)"
| "map_st f (x # xs) n =
     (let (y, n1) = f x n; (ys, n2) = map_st f xs n1 in (y # ys, n2))"

lemma map_st_cong [fundef_cong]:
  "xs = ys \<Longrightarrow> n = m \<Longrightarrow> (\<And>x k. x \<in> set ys \<Longrightarrow> f x k = g x k) \<Longrightarrow>
   map_st f xs n = map_st g ys m"
  by (induction ys arbitrary: xs n m) (auto simp: Let_def split: prod.splits)

text \<open>
  The cases follow the source: primitives are returned as they are; the array, the map and
  the record are created before their contents are cloned, the set after.

  In the record case every value is cloned, and \<^verbatim>\<open>cloned[key] = ...\<close> makes it an own
  property of the fresh \<^verbatim>\<open>{}\<close>, for every key but one: the assignment to
  \<^verbatim>\<open>__proto__\<close> goes to the setter that \<^verbatim>\<open>{}\<close> inherits, and the clone gets no own
  property of that name. (The setter makes an object or \<^verbatim>\<open>null\<close> the prototype of the
  clone and ignores every other value; prototypes are not part of the value type.)
\<close>

fun deepClone :: "jsval \<Rightarrow> nat \<Rightarrow> jsval \<times> nat" where
  "deepClone (Prim p) n = (Prim p, n)"
| "deepClone (JDate r t) n = (JDate n t, Suc n)"
| "deepClone (JArray r xs) n =
     (let (ys, n') = map_st deepClone xs (Suc n) in (JArray n ys, n'))"
| "deepClone (JSet r xs) n =
     (let (ys, n') = map_st deepClone xs n in (JSet n' ys, Suc n'))"
| "deepClone (JMap r es) n =
     (let (es', n') =
        map_st (\<lambda>(key, value) k.
                  let (key', k1) = deepClone key k; (value', k2) = deepClone value k1
                  in ((key', value'), k2)) es (Suc n)
      in (JMap n es', n'))"
| "deepClone (JObject r ps) n =
     (let (ps', n') =
        map_st (\<lambda>(key, value) k. let (value', k1) = deepClone value k in ((key, value'), k1))
          ps (Suc n)
      in (JObject n (filter (\<lambda>(key, value). key \<noteq> ''__proto__'') ps'), n'))"

subsection \<open>Own properties\<close>

text \<open>
  The decimal name of an array index, \<^verbatim>\<open>String(i)\<close>.
\<close>

function string_of_nat :: "nat \<Rightarrow> string" where
  "string_of_nat n =
     (if n < 10 then [char_of (48 + n)]
      else string_of_nat (n div 10) @ [char_of (48 + n mod 10)])"
  by pat_completeness auto
termination
  by (relation "measure id") auto

definition index_keys :: "jsval list \<Rightarrow> string list" where
  "index_keys xs = map string_of_nat [0 ..< length xs]"

text \<open>
  \<^verbatim>\<open>Object.keys(v)\<close> for an object \<open>v\<close>: the own enumerable string keys. A
  \<^verbatim>\<open>Date\<close>, a \<^verbatim>\<open>Set\<close> and a \<^verbatim>\<open>Map\<close> have none.
\<close>

fun own_keys :: "jsval \<Rightarrow> string list" where
  "own_keys (JObject r ps) = map fst ps"
| "own_keys (JArray r xs) = index_keys xs"
| "own_keys _ = []"

text \<open>
  \<^verbatim>\<open>v[key]\<close> for an object \<open>v\<close>; a missing property reads as \<^verbatim>\<open>undefined\<close>. The
  utilities read properties of objects only.
\<close>

fun get_prop :: "jsval \<Rightarrow> string \<Rightarrow> jsval" where
  "get_prop (JObject r ps) key =
     (case map_of ps key of Some v \<Rightarrow> v | None \<Rightarrow> Prim PUndefined)"
| "get_prop (JArray r xs) key =
     (if key = ''length'' then Prim (PNum (Finite (real (length xs))))
      else case map_of (zip (index_keys xs) xs) key of
             Some v \<Rightarrow> v | None \<Rightarrow> Prim PUndefined)"
| "get_prop _ key = Prim PUndefined"

text \<open>
  \<^verbatim>\<open>key in v\<close>: a \<open>TypeError\<close> when \<open>v\<close> is not an object, \<^verbatim>\<open>null\<close> and
  \<^verbatim>\<open>undefined\<close> included. Own properties only: the names that every object inherits
  from its prototype (\<^verbatim>\<open>toString\<close>, \<^verbatim>\<open>constructor\<close>, \<^verbatim>\<open>__proto__\<close> and the
  like) are not modelled, here and in \<open>get_prop\<close> and \<open>put_prop\<close>, so the path
  functions below are those of the code for keys that are no such names.
\<close>

fun has_in :: "string \<Rightarrow> jsval \<Rightarrow> error + bool" where
  "has_in key (Prim p) = Inl TypeError"
| "has_in key (JObject r ps) = Inr (key \<in> set (map fst ps))"
| "has_in key (JArray r xs) = Inr (key \<in> set (index_keys xs) \<or> key = ''length'')"
| "has_in key _ = Inr False"

text \<open>
  \<^verbatim>\<open>v[key] = x\<close>, returning the object after the assignment. On a primitive it is a
  \<open>TypeError\<close> (the modules run in strict mode). On a record it replaces the property or
  appends it. On an array it replaces an element or appends one at index \<open>length\<close>.
  Every other assignment (a named property on an array, a \<^verbatim>\<open>Date\<close>, a \<^verbatim>\<open>Set\<close> or
  a \<^verbatim>\<open>Map\<close>, an index beyond the length) gives an object that is none of the composite
  values above, reported as \<open>OutsideModel\<close>.
\<close>

definition array_index :: "jsval list \<Rightarrow> string \<Rightarrow> nat option" where
  "array_index xs key =
     map_of (zip (map string_of_nat [0 ..< Suc (length xs)]) [0 ..< Suc (length xs)]) key"

fun put_prop :: "jsval \<Rightarrow> string \<Rightarrow> jsval \<Rightarrow> error + jsval" where
  "put_prop (Prim p) key x = Inl TypeError"
| "put_prop (JObject r ps) key x = Inr (JObject r (AList.update key x ps))"
| "put_prop (JArray r xs) key x =
     (case array_index xs key of
        Some i \<Rightarrow> Inr (JArray r (if i < length xs then xs[i := x] else xs @ [x]))
      | None \<Rightarrow> Inl OutsideModel)"
| "put_prop _ key x = Inl OutsideModel"

subsection \<open>deepEqual\<close>

lemma size_element: "x \<in> set (elements a) \<Longrightarrow> is_Array a \<Longrightarrow> size x < size a"
  by (cases a) (auto simp: less_Suc_eq_le size_list_estimation')

lemma size_map_of:
  "map_of ps key = Some v \<Longrightarrow> size v \<le> size_list (size_prod (\<lambda>_. 0) size) ps"
  by (induction ps) (auto split: if_splits)

lemma size_get_prop:
  "key \<in> set (own_keys a) \<Longrightarrow> \<not> is_Array a \<Longrightarrow> size (get_prop a key) < size a"
  by (cases a) (auto simp: less_Suc_eq_le size_map_of split: option.splits)

text \<open>
  \<^verbatim>\<open>a.every((item, index) => deepEqual(item, b[index]))\<close> is reached with arrays of equal
  length, where it compares the elements pairwise.
\<close>

function deepEqual :: "jsval \<Rightarrow> jsval \<Rightarrow> bool" where
  "deepEqual a b =
     (if strict_equal a b then True
      else if a = Prim PNull \<or> b = Prim PNull then False
      else if typeof a \<noteq> typeof b then False
      else if typeof a \<noteq> TObject then False
      else if is_Date a \<and> is_Date b then num_equal (getTime a) (getTime b)
      else if is_Array a \<and> is_Array b then
        (if length (elements a) \<noteq> length (elements b) then False
         else list_all2 deepEqual (elements a) (elements b))
      else if is_Array a \<or> is_Array b then False
      else
        let keysA = own_keys a; keysB = own_keys b in
        if length keysA \<noteq> length keysB then False
        else list_all (\<lambda>key. key \<in> set keysB \<and>
                              deepEqual (get_prop a key) (get_prop b key)) keysA)"
  by pat_completeness auto
termination
  by (relation "measure (\<lambda>(a, b). size a)") (auto simp: size_element size_get_prop)

declare deepEqual.simps [simp del]

subsection \<open>Path access\<close>

text \<open>
  \<^verbatim>\<open>path.split('.')\<close>: the segments between the dots; the empty string has the one
  segment \<open>''''\<close>. The result is never empty, so the last case of the \<open>case\<close> is never
  taken.
\<close>

fun split_dot :: "string \<Rightarrow> string list" where
  "split_dot [] = [[]]"
| "split_dot (c # cs) =
     (if c = CHR ''.'' then [] # split_dot cs
      else case split_dot cs of
             seg # segs \<Rightarrow> (c # seg) # segs
           | [] \<Rightarrow> [[c]])"

text \<open>
  \<^verbatim>\<open>get\<close>: the loop over the keys, then the function. An omitted default is
  \<^verbatim>\<open>undefined\<close>.
\<close>

fun get_walk :: "jsval \<Rightarrow> string list \<Rightarrow> jsval \<Rightarrow> error + jsval" where
  "get_walk current [] defaultValue = Inr current"
| "get_walk current (key # keys) defaultValue =
     (if current = Prim PNull \<or> current = Prim PUndefined then Inr defaultValue
      else case has_in key current of
             Inl e \<Rightarrow> Inl e
           | Inr present \<Rightarrow>
               if \<not> present then Inr defaultValue
               else get_walk (get_prop current key) keys defaultValue)"

definition get :: "jsval \<Rightarrow> string \<Rightarrow> jsval \<Rightarrow> error + jsval" where
  "get obj path defaultValue = get_walk obj (split_dot path) defaultValue"

fun has_walk :: "jsval \<Rightarrow> string list \<Rightarrow> error + bool" where
  "has_walk current [] = Inr True"
| "has_walk current (key # keys) =
     (if current = Prim PNull \<or> current = Prim PUndefined then Inr False
      else case has_in key current of
             Inl e \<Rightarrow> Inl e
           | Inr present \<Rightarrow>
               if \<not> present then Inr False
               else has_walk (get_prop current key) keys)"

definition has :: "jsval \<Rightarrow> string \<Rightarrow> error + bool" where
  "has obj path = has_walk obj (split_dot path)"

text \<open>
  \<^verbatim>\<open>set\<close> changes the object in place; the model returns the object after the call
  (and the allocator's counter, since \<^verbatim>\<open>{}\<close> creates objects). An exception ends the
  call with the error alone. \<open>and_then\<close> sequences two steps, the second of which runs
  only if the first did not throw.

  One round of the loop \<^verbatim>\<open>for (i = 0; i < keys.length - 1; i++)\<close> tests
  \<^verbatim>\<open>!(key in current) || typeof current[key] !== 'object'\<close>, assigns \<^verbatim>\<open>{}\<close> if so,
  and goes on with the object \<^verbatim>\<open>current[key]\<close>; what the rest of the walk does to that
  object is seen through \<open>current\<close>, which the last \<open>put_prop\<close> of the round expresses.
  The last key is assigned the value. (The list of keys is never empty; for an empty
  list \<^verbatim>\<open>keys[keys.length - 1]\<close> would be \<^verbatim>\<open>undefined\<close>.)
\<close>

definition and_then :: "error + 'a \<Rightarrow> ('a \<Rightarrow> error + 'b) \<Rightarrow> error + 'b" where
  "and_then r f = (case r of Inl e \<Rightarrow> Inl e | Inr x \<Rightarrow> f x)"

lemma and_then_cong [fundef_cong]:
  "r = r' \<Longrightarrow> (\<And>x. r' = Inr x \<Longrightarrow> f x = f' x) \<Longrightarrow> and_then r f = and_then r' f'"
  by (auto simp: and_then_def split: sum.splits)

fun set_walk :: "jsval \<Rightarrow> string list \<Rightarrow> jsval \<Rightarrow> nat \<Rightarrow> error + jsval \<times> nat" where
  "set_walk current [] value n =
     and_then (put_prop current ''undefined'' value) (\<lambda>current'. Inr (current', n))"
| "set_walk current [key] value n =
     and_then (put_prop current key value) (\<lambda>current'. Inr (current', n))"
| "set_walk current (key # keys) value n =
     and_then (has_in key current) (\<lambda>present.
     and_then
       (if \<not> present \<or> typeof (get_prop current key) \<noteq> TObject
        then and_then (put_prop current key (JObject n [])) (\<lambda>current'. Inr (current', Suc n))
        else Inr (current, n)) (\<lambda>(current1, n1).
     and_then (set_walk (get_prop current1 key) keys value n1) (\<lambda>(child, n2).
     and_then (put_prop current1 key child) (\<lambda>current2. Inr (current2, n2)))))"

definition set_path :: "jsval \<Rightarrow> string \<Rightarrow> jsval \<Rightarrow> nat \<Rightarrow> error + jsval \<times> nat" where
  "set_path obj path value n = set_walk obj (split_dot path) value n"

text \<open>
  Three predicates for stating properties of \<^verbatim>\<open>deepClone\<close>. \<open>nan_free v\<close>: no NaN is
  met on the way through the sequences and records of \<open>v\<close>, neither as a number nor as the
  time of a \<^verbatim>\<open>Date\<close> (the contents of sets and maps do not count).
  \<open>proto_free v\<close>: no record met on the same way has an own property named
  \<^verbatim>\<open>__proto__\<close>.
  \<open>allocated_below n v\<close>: every reference in \<open>v\<close> is below \<open>n\<close>, as it is when \<open>n\<close>
  is the allocator's counter and \<open>v\<close> exists.
\<close>

fun nan_free :: "jsval \<Rightarrow> bool" where
  "nan_free (Prim p) = (p \<noteq> PNum NaN)"
| "nan_free (JDate r t) = (t \<noteq> NaN)"
| "nan_free (JArray r xs) = list_all nan_free xs"
| "nan_free (JSet r xs) = True"
| "nan_free (JMap r es) = True"
| "nan_free (JObject r ps) = list_all (\<lambda>(key, value). nan_free value) ps"

fun proto_free :: "jsval \<Rightarrow> bool" where
  "proto_free (Prim p) = True"
| "proto_free (JDate r t) = True"
| "proto_free (JArray r xs) = list_all proto_free xs"
| "proto_free (JSet r xs) = True"
| "proto_free (JMap r es) = True"
| "proto_free (JObject r ps) =
     list_all (\<lambda>(key, value). key \<noteq> ''__proto__'' \<and> proto_free value) ps"

fun allocated_below :: "nat \<Rightarrow> jsval \<Rightarrow> bool" where
  "allocated_below n (Prim p) = True"
| "allocated_below n (JDate r t) = (r < n)"
| "allocated_below n (JArray r xs) = (r < n \<and> list_all (allocated_below n) xs)"
| "allocated_below n (JSet r xs) = (r < n \<and> list_all (allocated_below n) xs)"
| "allocated_below n (JMap r es) =
     (r < n \<and> list_all (\<lambda>(key, value). allocated_below n key \<and> allocated_below n value) es)"
| "allocated_below n (JObject r ps) =
     (r < n \<and> list_all (\<lambda>(key, value). allocated_below n value) ps)"

text \<open>
  The parameter \<open>kind\<close> for three item types: one without NaN and
  \<^verbatim>\<open>undefined\<close> (strings, say), numbers, and values that may be \<^verbatim>\<open>undefined\<close>
  (\<open>None\<close>).
\<close>

definition plain_kind :: "'a \<Rightarrow> item_kind" where
  "plain_kind x = Plain"

definition number_kind :: "jsnum \<Rightarrow> item_kind" where
  "number_kind x = (case x of NaN \<Rightarrow> IsNaN | Finite y \<Rightarrow> Plain)"

definition optional_kind :: "'a option \<Rightarrow> item_kind" where
  "optional_kind x = (case x of None \<Rightarrow> IsUndefined | Some y \<Rightarrow> Plain)"

section \<open>The repository's tests on the model\<close>

text \<open>
  Cases of the repository's test suite, evaluated on the definitions above. Where a test
  draws a random number, the draw is \<open>1/2\<close>. The two dates are
  \<^verbatim>\<open>new Date('2023-01-01')\<close> and \<^verbatim>\<open>new Date('2023-01-02')\<close>.
\<close>

lemma test_weightedSample:
  "weightedSample (1/2) [''a'', ''b''] [1] = Inl LengthMismatch \<and>
   weightedSample (1/2) [''a'', ''b''] [1, - 1] = Inl InvalidWeight \<and>
   weightedSample (1/2) [''a'', ''b''] [0, 0] = Inr None \<and>
   weightedSample (1/2) [''a'', ''b''] [1, 0] = Inr (Some ''a'') \<and>
   weightedSample (1/2) [''a'', ''b''] [0, 1] = Inr (Some ''b'') \<and>
   weightedSample (1/2) [''a''] [5] = Inr (Some ''a'')"
  by (simp add: weightedSample_def)

lemma test_aggregates:
  "weightedAverage [10, 20] [1, 4] = Inr 18 \<and>
   weightedSum [1, 2, 3] [2, 3, 4] = Inr 20 \<and>
   weightedFrequency [''a'', ''b'', ''a''] [1, 2, 3] = Inr [(''a'', 4), (''b'', 2)] \<and>
   weightedMax [''a'', ''b'', ''c''] [1, 3, 2] = Inr (Some ''b'') \<and>
   weightedMax [''a'', ''b'', ''c''] [2, 2, 1] = Inr (Some ''a'') \<and>
   weightedMin [''a'', ''b'', ''c''] [1, - 5, 2] = Inr (Some ''b'')"
  by (simp add: weightedAverage_def weightedSum_def reduce_weighted_def weightedFrequency_def
      weightedMax_def weightedMin_def upt_conv_Cons)

lemma test_credit_card:
  "isValidCreditCard ''4532 0151 1283 0366'' \<and> \<not> isValidCreditCard ''123'' \<and>
   isCreditCard ''5555555555554444'' \<and> \<not> isCreditCard ''1234567890123456''"
  by (simp add: isValidCreditCard_def isCreditCard_def is_digit_def parseInt_def)

lemma test_deepEqual:
  "deepEqual (JDate 0 (Finite 1672531200000)) (JDate 1 (Finite 1672531200000)) \<and>
   \<not> deepEqual (JDate 0 (Finite 1672531200000)) (JDate 2 (Finite 1672617600000)) \<and>
   deepEqual (JArray 0 [Prim (PNum (Finite 1)), Prim (PNum (Finite 2))])
             (JArray 1 [Prim (PNum (Finite 1)), Prim (PNum (Finite 2))]) \<and>
   \<not> deepEqual (JArray 0 [Prim (PNum (Finite 1)), Prim (PNum (Finite 2))])
               (JArray 1 [Prim (PNum (Finite 1)), Prim (PNum (Finite 2)), Prim (PNum (Finite 3))]) \<and>
   deepEqual (Prim PNull) (Prim PNull) \<and>
   deepEqual (Prim PUndefined) (Prim PUndefined) \<and>
   \<not> deepEqual (Prim PNull) (Prim PUndefined) \<and>
   deepEqual (JObject 0 [(''a'', Prim (PNum (Finite 1))),
                         (''b'', JObject 1 [(''c'', Prim (PNum (Finite 2)))])])
             (JObject 2 [(''a'', Prim (PNum (Finite 1))),
                         (''b'', JObject 3 [(''c'', Prim (PNum (Finite 2)))])]) \<and>
   \<not> deepEqual (JObject 0 [(''a'', Prim (PNum (Finite 1))),
                           (''b'', JObject 1 [(''c'', Prim (PNum (Finite 2)))])])
               (JObject 2 [(''a'', Prim (PNum (Finite 1))),
                           (''b'', JObject 3 [(''c'', Prim (PNum (Finite 5)))])])"
  by (simp add: deepEqual.simps)

lemma test_get:
  "get (JObject 0 [(''a'', JObject 1 [(''b'', JObject 2 [(''c'', Prim (PStr ''value''))])]),
                   (''x'', Prim PNull)]) ''a.b.c'' (Prim PUndefined)
     = Inr (Prim (PStr ''value'')) \<and>
   get (JObject 0 [(''a'', JObject 1 [(''b'', JObject 2 [(''c'', Prim (PStr ''value''))])]),
                   (''x'', Prim PNull)]) ''x'' (Prim PUndefined)
     = Inr (Prim PNull) \<and>
   get (JObject 0 [(''a'', JObject 1 [(''b'', JObject 2 [(''c'', Prim (PStr ''value''))])]),
                   (''x'', Prim PNull)]) ''a.b.d'' (Prim (PStr ''default''))
     = Inr (Prim (PStr ''default'')) \<and>
   get (JObject 0 [(''a'', JObject 1 [(''b'', JObject 2 [(''c'', Prim (PStr ''value''))])]),
                   (''x'', Prim PNull)]) ''missing.path'' (Prim (PStr ''default''))
     = Inr (Prim (PStr ''default''))"
  by (simp add: get_def)

lemma test_has:
  "has (JObject 0 [(''a'', JObject 1 [(''b'', JObject 2 [(''c'', Prim PNull)])])]) ''a.b.c''
     = Inr True \<and>
   has (JObject 0 [(''a'', JObject 1 [(''b'', JObject 2 [(''c'', Prim PNull)])])]) ''a.b.d''
     = Inr False \<and>
   has (JObject 0 [(''a'', JObject 1 [(''b'', JObject 2 [(''c'', Prim PNull)])])]) ''missing''
     = Inr False"
  by (simp add: has_def)

lemma test_set:
  "set_path (JObject 0 []) ''a.b.c'' (Prim (PStr ''value'')) 1
     = Inr (JObject 0 [(''a'', JObject 1 [(''b'', JObject 2 [(''c'', Prim (PStr ''value''))])])],
            3) \<and>
   set_path (JObject 0 [(''a'', JObject 1 [(''b'', JObject 2 [(''c'', Prim (PStr ''value''))])])])
       ''a.b.d'' (Prim (PStr ''another'')) 3
     = Inr (JObject 0 [(''a'', JObject 1 [(''b'',
              JObject 2 [(''c'', Prim (PStr ''value'')), (''d'', Prim (PStr ''another''))])])],
            3) \<and>
   set_path (JObject 0 [(''a'', JObject 1 [(''b'', Prim (PStr ''old''))])])
       ''a.b'' (Prim (PStr ''new'')) 2
     = Inr (JObject 0 [(''a'', JObject 1 [(''b'', Prim (PStr ''new''))])], 2)"
  by (simp add: set_path_def and_then_def)

section \<open>Properties of weighted sampling\<close>

lemma foldl_add_sum_list: "foldl (\<lambda>sum weight. sum + weight) (a::real) ws = a + sum_list ws"
  by (induction ws arbitrary: a) auto

lemma sample_loop_in_set: "sample_loop r xs ws c = Some x \<Longrightarrow> x \<in> set xs"
  by (induction r xs ws c rule: sample_loop.induct) (auto split: if_splits)

lemma weightedSample_Some_in_set:
  "weightedSample u xs ws = Inr (Some x) \<Longrightarrow> x \<in> set xs"
  by (auto simp: weightedSample_def Let_def split: if_splits option.splits
           dest: sample_loop_in_set)

lemma weightedSample_no_error:
  assumes "length xs = length ws" and "\<forall>w\<in>set ws. 0 \<le> w"
  shows "\<exists>r. weightedSample u xs ws = Inr r"
proof -
  from assms(2) have "\<not> list_ex (\<lambda>w. w < 0) ws" by (auto simp: list_ex_iff not_less)
  with assms(1) show ?thesis
    by (simp add: weightedSample_def Let_def split: option.splits)
qed

lemma indexOf_from_first:
  "x \<in> set xs \<Longrightarrow> kind x \<noteq> IsNaN \<Longrightarrow>
   \<exists>k. indexOf_from kind xs x i = i + int k \<and> k < length xs \<and> xs ! k = x \<and> x \<notin> set (take k xs)"
proof (induction xs arbitrary: i)
  case Nil
  then show ?case by simp
next
  case (Cons y ys)
  show ?case
  proof (cases "y = x")
    case True
    with Cons.prems(2) have "indexOf_from kind (y # ys) x i = i + int 0 \<and> 0 < length (y # ys)
       \<and> (y # ys) ! 0 = x \<and> x \<notin> set (take 0 (y # ys))"
      by (simp add: triple_equals_def)
    then show ?thesis by blast
  next
    case False
    with Cons.prems have "x \<in> set ys" by simp
    from Cons.IH [OF this Cons.prems(2), of "i + 1"] obtain k where
      k: "indexOf_from kind ys x (i + 1) = i + 1 + int k" "k < length ys" "ys ! k = x"
         "x \<notin> set (take k ys)"
      by blast
    with False have "indexOf_from kind (y # ys) x i = i + int (Suc k) \<and> Suc k < length (y # ys)
       \<and> (y # ys) ! Suc k = x \<and> x \<notin> set (take (Suc k) (y # ys))"
      by (simp add: triple_equals_def)
    then show ?thesis by blast
  qed
qed

lemma indexOf_first:
  "x \<in> set xs \<Longrightarrow> kind x \<noteq> IsNaN \<Longrightarrow>
   \<exists>k. indexOf kind xs x = int k \<and> k < length xs \<and> xs ! k = x \<and> x \<notin> set (take k xs)"
  using indexOf_from_first [of x xs kind 0] by (simp add: indexOf_def)

lemma splice1_nth: "k < length xs \<Longrightarrow> splice1 (int k) xs = take k xs @ drop (Suc k) xs"
  by (simp add: splice1_def Let_def)

lemma remove1_first:
  "k < length xs \<Longrightarrow> x \<notin> set (take k xs) \<Longrightarrow> xs ! k = x \<Longrightarrow>
   remove1 x xs = take k xs @ drop (Suc k) xs"
proof (induction xs arbitrary: k)
  case Nil
  then show ?case by simp
next
  case (Cons y ys)
  then show ?case by (cases k) auto
qed

lemma splice1_indexOf:
  "x \<in> set xs \<Longrightarrow> kind x \<noteq> IsNaN \<Longrightarrow> splice1 (indexOf kind xs x) xs = remove1 x xs"
  using indexOf_first [of x xs kind] by (auto simp: splice1_nth remove1_first)

lemma splice1_same_length:
  "length xs = length ys \<Longrightarrow> length (splice1 i xs) = length (splice1 i ys)"
  by (simp add: splice1_def Let_def)

lemma splice1_subset: "set (splice1 i xs) \<subseteq> set xs"
  by (auto simp: splice1_def Let_def dest: in_set_takeD in_set_dropD)

lemma loop_invariant:
  assumes "length items = length weights" and "\<forall>w\<in>set weights. 0 \<le> w"
  shows "\<exists>drawn. without_replacement_loop kind rnd i bound items weights result
             = Inr (result @ drawn)
           \<and> int (length drawn) \<le> max 0 (\<lceil>bound\<rceil> - i)
           \<and> ((\<forall>x\<in>set items. kind x \<noteq> IsNaN) \<longrightarrow> mset drawn \<subseteq># mset items)"
  using assms
proof (induction kind rnd i bound items weights result rule: without_replacement_loop.induct)
  case (1 kind rnd i bound items weights result)
  show ?case
  proof (cases "real_of_int i < bound")
    case False
    then have "without_replacement_loop kind rnd i bound items weights result = Inr (result @ [])"
      by simp
    then show ?thesis by (intro exI [of _ "[]"]) simp
  next
    case True
    then have lt: "i < \<lceil>bound\<rceil>" by (simp add: less_ceiling_iff)
    from weightedSample_no_error [OF "1.prems"] obtain r where
      r: "weightedSample (rnd i) items weights = Inr r" by blast
    show ?thesis
    proof (cases r)
      case None
      from "1.IH"(1) [OF True r None "1.prems"] obtain drawn where
        d: "without_replacement_loop kind rnd (i + 1) bound items weights result
              = Inr (result @ drawn)"
           "int (length drawn) \<le> max 0 (\<lceil>bound\<rceil> - (i + 1))"
           "(\<forall>x\<in>set items. kind x \<noteq> IsNaN) \<longrightarrow> mset drawn \<subseteq># mset items"
        by blast
      from True r None d(1) have
        "without_replacement_loop kind rnd i bound items weights result = Inr (result @ drawn)"
        by simp
      moreover from d(2) have "int (length drawn) \<le> max 0 (\<lceil>bound\<rceil> - i)" by simp
      ultimately show ?thesis using d(3) by blast
    next
      case (Some sample)
      show ?thesis
      proof (cases "kind sample = IsUndefined")
        case True
        from "1.IH"(3) [OF \<open>real_of_int i < bound\<close> r Some _ "1.prems"] True obtain drawn where
          d: "without_replacement_loop kind rnd (i + 1) bound items weights result
                = Inr (result @ drawn)"
             "int (length drawn) \<le> max 0 (\<lceil>bound\<rceil> - (i + 1))"
             "(\<forall>x\<in>set items. kind x \<noteq> IsNaN) \<longrightarrow> mset drawn \<subseteq># mset items"
          by blast
        from \<open>real_of_int i < bound\<close> r Some True d(1) have
          "without_replacement_loop kind rnd i bound items weights result = Inr (result @ drawn)"
          by simp
        moreover from d(2) have "int (length drawn) \<le> max 0 (\<lceil>bound\<rceil> - i)" by simp
        ultimately show ?thesis using d(3) by blast
      next
        case False
        from r Some have mem: "sample \<in> set items" by (auto dest: weightedSample_Some_in_set)
        define index where "index = indexOf kind items sample"
        have len: "length (splice1 index items) = length (splice1 index weights)"
          using "1.prems"(1) by (rule splice1_same_length)
        have nn: "\<forall>w\<in>set (splice1 index weights). 0 \<le> w"
          using "1.prems"(2) splice1_subset [of index weights] by blast
        from "1.IH"(2) [OF \<open>real_of_int i < bound\<close> r Some False index_def len nn]
        obtain drawn where
          d: "without_replacement_loop kind rnd (i + 1) bound (splice1 index items)
                (splice1 index weights) (result @ [sample]) = Inr ((result @ [sample]) @ drawn)"
             "int (length drawn) \<le> max 0 (\<lceil>bound\<rceil> - (i + 1))"
             "(\<forall>x\<in>set (splice1 index items). kind x \<noteq> IsNaN) \<longrightarrow>
                mset drawn \<subseteq># mset (splice1 index items)"
          by blast
        from \<open>real_of_int i < bound\<close> r Some False d(1) have
          "without_replacement_loop kind rnd i bound items weights result
             = Inr (result @ (sample # drawn))"
          by (simp add: index_def Let_def)
        moreover from d(2) lt have "int (length (sample # drawn)) \<le> max 0 (\<lceil>bound\<rceil> - i)"
          by simp
        moreover have "mset (sample # drawn) \<subseteq># mset items"
          if nf: "\<forall>x\<in>set items. kind x \<noteq> IsNaN"
        proof -
          from nf mem have "kind sample \<noteq> IsNaN" by blast
          with mem have items': "splice1 index items = remove1 sample items"
            unfolding index_def by (rule splice1_indexOf)
          from nf have "\<forall>x\<in>set (splice1 index items). kind x \<noteq> IsNaN"
            using splice1_subset [of index items] by blast
          with d(3) items' have "mset drawn \<subseteq># mset (remove1 sample items)" by simp
          with mem show ?thesis by (simp add: insert_subset_eq_iff)
        qed
        ultimately show ?thesis by blast
      qed
    qed
  qed
qed

lemma distinct_of_submset:
  assumes "mset ys \<subseteq># mset xs" and "distinct xs"
  shows "distinct ys"
proof -
  have "count (mset ys) a = (if a \<in> set ys then 1 else 0)" for a
  proof (cases "a \<in> set ys")
    case False
    then show ?thesis by (simp add: count_eq_zero_iff)
  next
    case True
    then have "0 < count (mset ys) a" by (simp add: count_greater_zero_iff)
    moreover have "count (mset ys) a \<le> count (mset xs) a"
      using assms(1) by (rule mset_subset_eq_count)
    moreover have "count (mset xs) a \<le> 1"
      using assms(2) by (simp add: distinct_count_atmost_1)
    ultimately have "count (mset ys) a = 1" by linarith
    with True show ?thesis by simp
  qed
  then show ?thesis by (simp add: distinct_count_atmost_1)
qed

lemma filter_zip_neq:
  "x \<notin> set xs \<Longrightarrow> filter (\<lambda>(y, w). y \<noteq> x) (zip xs ws) = zip xs ws"
  by (rule filter_True) (auto dest: set_zip_leftD)

lemma pair_removed:
  assumes "distinct xs" and "length xs = length ws" and "x \<in> set xs" and "kind x \<noteq> IsNaN"
  shows "zip (splice1 (indexOf kind xs x) xs) (splice1 (indexOf kind xs x) ws)
           = filter (\<lambda>(y, w). y \<noteq> x) (zip xs ws)"
proof -
  from indexOf_first [of x xs kind] assms(3,4) obtain k where
    k: "indexOf kind xs x = int k" "k < length xs" "xs ! k = x" "x \<notin> set (take k xs)" by blast
  have kw: "k < length ws" using k(2) assms(2) by simp
  have xs: "xs = take k xs @ x # drop (Suc k) xs"
    using id_take_nth_drop [OF k(2)] unfolding k(3) .
  have ws: "ws = take k ws @ ws ! k # drop (Suc k) ws"
    using kw by (simp add: id_take_nth_drop)
  have notin: "x \<notin> set (drop (Suc k) xs)"
    using assms(1) xs by (metis distinct_append distinct.simps(2))
  have lt: "length (take k xs) = length (take k ws)" using assms(2) by simp
  have "zip xs ws = zip (take k xs) (take k ws) @ (x, ws ! k) # zip (drop (Suc k) xs) (drop (Suc k) ws)"
    using lt xs ws by (metis zip_append zip_Cons_Cons)
  then have "filter (\<lambda>(y, w). y \<noteq> x) (zip xs ws)
      = zip (take k xs) (take k ws) @ zip (drop (Suc k) xs) (drop (Suc k) ws)"
    using k(4) notin by (simp add: filter_zip_neq)
  also have "\<dots> = zip (take k xs @ drop (Suc k) xs) (take k ws @ drop (Suc k) ws)"
    using lt by simp
  finally show ?thesis
    using k(1,2) kw by (simp add: splice1_nth)
qed

lemma pool_after_draw:
  assumes "distinct xs" and "length xs = length ws" and "x \<in> set xs" and "kind x \<noteq> IsNaN"
  shows "splice1 (indexOf kind xs x) xs = map fst (filter (\<lambda>(y, w). y \<noteq> x) (zip xs ws))"
    and "splice1 (indexOf kind xs x) ws = map snd (filter (\<lambda>(y, w). y \<noteq> x) (zip xs ws))"
proof -
  have len: "length (splice1 (indexOf kind xs x) xs) = length (splice1 (indexOf kind xs x) ws)"
    using assms(2) by (rule splice1_same_length)
  have z: "zip (splice1 (indexOf kind xs x) xs) (splice1 (indexOf kind xs x) ws)
           = filter (\<lambda>(y, w). y \<noteq> x) (zip xs ws)"
    using assms by (rule pair_removed)
  show "splice1 (indexOf kind xs x) xs = map fst (filter (\<lambda>(y, w). y \<noteq> x) (zip xs ws))"
    unfolding z [symmetric] using len by simp
  show "splice1 (indexOf kind xs x) ws = map snd (filter (\<lambda>(y, w). y \<noteq> x) (zip xs ws))"
    unfolding z [symmetric] using len by simp
qed

lemma ceiling_min_of_nat: "\<lceil>min x (real m)\<rceil> = min \<lceil>x\<rceil> (int m)"
proof (cases "x \<le> real m")
  case True
  then have "\<lceil>x\<rceil> \<le> int m" by (simp add: ceiling_le_iff)
  with True show ?thesis by (simp add: min_def)
next
  case False
  then have "real m < x" by simp
  then have "int m < \<lceil>x\<rceil>" by (simp add: less_ceiling_iff)
  with False show ?thesis by (simp add: min_def)
qed

text \<open>
  Claim C1, as the code has it. The checks of \<^verbatim>\<open>weightedSample\<close> come in a fixed
  order: an empty sequence on either side gives no result, also when the lengths differ;
  otherwise differing lengths fail with \<open>LengthMismatch\<close>; otherwise a negative weight
  fails with \<open>InvalidWeight\<close>; otherwise a total weight of exactly zero gives no result.
\<close>

theorem weightedSample_contract:
  "(array = [] \<or> weights = [] \<longrightarrow> weightedSample u array weights = Inr None) \<and>
   (array \<noteq> [] \<and> weights \<noteq> [] \<and> length array \<noteq> length weights \<longrightarrow>
      weightedSample u array weights = Inl LengthMismatch) \<and>
   (array \<noteq> [] \<and> length array = length weights \<and> (\<exists>w\<in>set weights. w < 0) \<longrightarrow>
      weightedSample u array weights = Inl InvalidWeight) \<and>
   (array \<noteq> [] \<and> length array = length weights \<and> (\<forall>w\<in>set weights. 0 \<le> w) \<and>
      sum_list weights = 0 \<longrightarrow> weightedSample u array weights = Inr None)"
proof (intro conjI impI)
  assume "array = [] \<or> weights = []"
  then show "weightedSample u array weights = Inr None"
    by (simp add: weightedSample_def)
next
  assume "array \<noteq> [] \<and> weights \<noteq> [] \<and> length array \<noteq> length weights"
  then show "weightedSample u array weights = Inl LengthMismatch"
    by (simp add: weightedSample_def)
next
  assume a: "array \<noteq> [] \<and> length array = length weights \<and> (\<exists>w\<in>set weights. w < 0)"
  then have "weights \<noteq> []" and "list_ex (\<lambda>w. w < 0) weights"
    by (auto simp: list_ex_iff)
  with a show "weightedSample u array weights = Inl InvalidWeight"
    by (simp add: weightedSample_def)
next
  assume a: "array \<noteq> [] \<and> length array = length weights \<and> (\<forall>w\<in>set weights. 0 \<le> w) \<and>
      sum_list weights = 0"
  then have "weights \<noteq> []" and "\<not> list_ex (\<lambda>w. w < 0) weights"
    by (auto simp: list_ex_iff not_less)
  with a show "weightedSample u array weights = Inr None"
    by (simp add: weightedSample_def foldl_add_sum_list)
qed

text \<open>
  One input for each of the four cases.
\<close>

theorem weightedSample_contract_witness:
  "weightedSample (1/2) [''a''] [] = Inr None \<and>
   weightedSample (1/2) [''a'', ''b''] [1] = Inl LengthMismatch \<and>
   weightedSample (1/2) [''a'', ''b''] [1, - 1] = Inl InvalidWeight \<and>
   weightedSample (1/2) [''a'', ''b''] [0, 0] = Inr None"
  using weightedSample_contract [where array = "[''a'']" and weights = "[]" and u = "1/2"]
    weightedSample_contract [where array = "[''a'', ''b'']" and weights = "[1]" and u = "1/2"]
    weightedSample_contract [where array = "[''a'', ''b'']" and weights = "[1, - 1]" and u = "1/2"]
    weightedSample_contract [where array = "[''a'', ''b'']" and weights = "[0, 0]" and u = "1/2"]
  by simp

text \<open>
  Claim C1 as stated fails: one item and no weights are sequences of differing lengths, and
  the call returns no result instead of failing with \<open>LengthMismatch\<close>.
\<close>

theorem weightedSample_mismatch_counterexample:
  "\<not> (length [''a''] \<noteq> length ([] :: real list) \<longrightarrow>
        weightedSample (1/2) [''a''] [] = Inl LengthMismatch)"
  by (simp add: weightedSample_def)



text \<open>
  Claim C3, as the code has it. With equally many items and weights and no negative weight,
  \<^verbatim>\<open>weightedSampleSizeWithoutReplacement\<close> returns normally, with at most
  \<open>min(\<lceil>n\<rceil>, length)\<close> elements: at most \<open>min(n, length)\<close> for a whole number
  \<open>n\<close>, and none for \<open>n \<le> 0\<close>. If no item is NaN, no value is returned more often than
  it occurs among the items, so pairwise distinct items give a result without duplicates.
  A round of the loop that draws an item from a pool of pairwise distinct items, none of
  them NaN or \<^verbatim>\<open>undefined\<close>, goes on with the pool from which the pair of the chosen
  item and its weight has been removed, with nothing else changed, and with the item
  added to the result.
\<close>

theorem weightedSampleSizeWithoutReplacement_draws:
  assumes "length array = length weights" and "\<forall>w\<in>set weights. 0 \<le> w"
  shows "(\<exists>result. weightedSampleSizeWithoutReplacement kind rnd array weights n = Inr result \<and>
            int (length result) \<le> max 0 (min \<lceil>n\<rceil> (int (length array))) \<and>
            (\<forall>k. n = of_int k \<longrightarrow> int (length result) \<le> max 0 (min k (int (length array)))) \<and>
            ((\<forall>x\<in>set array. kind x \<noteq> IsNaN) \<longrightarrow>
               mset result \<subseteq># mset array \<and> (distinct array \<longrightarrow> distinct result))) \<and>
         (\<forall>i bound items ws result sample.
            real_of_int i < bound \<and> distinct items \<and> (\<forall>x\<in>set items. kind x = Plain) \<and>
            length items = length ws \<and>
            weightedSample (rnd i) items ws = Inr (Some sample) \<longrightarrow>
            without_replacement_loop kind rnd i bound items ws result =
            without_replacement_loop kind rnd (i + 1) bound
              (map fst (filter (\<lambda>(y, w). y \<noteq> sample) (zip items ws)))
              (map snd (filter (\<lambda>(y, w). y \<noteq> sample) (zip items ws)))
              (result @ [sample]))"
proof (intro conjI allI impI)
  show "\<exists>result. weightedSampleSizeWithoutReplacement kind rnd array weights n = Inr result \<and>
            int (length result) \<le> max 0 (min \<lceil>n\<rceil> (int (length array))) \<and>
            (\<forall>k. n = of_int k \<longrightarrow> int (length result) \<le> max 0 (min k (int (length array)))) \<and>
            ((\<forall>x\<in>set array. kind x \<noteq> IsNaN) \<longrightarrow>
               mset result \<subseteq># mset array \<and> (distinct array \<longrightarrow> distinct result))"
  proof (cases "n \<le> 0 \<or> array = []")
    case True
    with assms(1) have "weightedSampleSizeWithoutReplacement kind rnd array weights n = Inr []"
      by (auto simp: weightedSampleSizeWithoutReplacement_def)
    then show ?thesis by simp
  next
    case False
    from loop_invariant [OF assms, of kind rnd 0 "min n (real (length array))" "[]"]
    obtain drawn where
      d: "without_replacement_loop kind rnd 0 (min n (real (length array))) array weights []
            = Inr drawn"
         "int (length drawn) \<le> max 0 (\<lceil>min n (real (length array))\<rceil> - 0)"
         "(\<forall>x\<in>set array. kind x \<noteq> IsNaN) \<longrightarrow> mset drawn \<subseteq># mset array"
      by auto
    from False assms(1) d(1) have
      "weightedSampleSizeWithoutReplacement kind rnd array weights n = Inr drawn"
      by (auto simp: weightedSampleSizeWithoutReplacement_def)
    moreover have b: "int (length drawn) \<le> max 0 (min \<lceil>n\<rceil> (int (length array)))"
      using d(2) by (simp add: ceiling_min_of_nat)
    moreover have "\<forall>k. n = of_int k \<longrightarrow> int (length drawn) \<le> max 0 (min k (int (length array)))"
      using b by auto
    moreover have "(\<forall>x\<in>set array. kind x \<noteq> IsNaN) \<longrightarrow>
        mset drawn \<subseteq># mset array \<and> (distinct array \<longrightarrow> distinct drawn)"
      using d(3) by (blast intro: distinct_of_submset)
    ultimately show ?thesis by blast
  qed
next
  fix i :: int and bound :: real and items :: "'a list" and ws :: "real list"
    and result :: "'a list" and sample :: 'a
  assume a: "real_of_int i < bound \<and> distinct items \<and> (\<forall>x\<in>set items. kind x = Plain) \<and>
            length items = length ws \<and>
            weightedSample (rnd i) items ws = Inr (Some sample)"
  then have mem: "sample \<in> set items" by (auto dest: weightedSample_Some_in_set)
  with a have pl: "kind sample = Plain" by blast
  then have nn: "kind sample \<noteq> IsNaN" by simp
  from a mem nn have p:
    "splice1 (indexOf kind items sample) items
       = map fst (filter (\<lambda>(y, w). y \<noteq> sample) (zip items ws))"
    "splice1 (indexOf kind items sample) ws
       = map snd (filter (\<lambda>(y, w). y \<noteq> sample) (zip items ws))"
    by (simp_all add: pool_after_draw)
  from a have "without_replacement_loop kind rnd i bound items ws result =
      without_replacement_loop kind rnd (i + 1) bound
        (splice1 (indexOf kind items sample) items) (splice1 (indexOf kind items sample) ws)
        (result @ [sample])"
    using pl by (subst without_replacement_loop.simps) (simp add: Let_def)
  then show "without_replacement_loop kind rnd i bound items ws result =
            without_replacement_loop kind rnd (i + 1) bound
              (map fst (filter (\<lambda>(y, w). y \<noteq> sample) (zip items ws)))
              (map snd (filter (\<lambda>(y, w). y \<noteq> sample) (zip items ws)))
              (result @ [sample])"
    unfolding p .
qed

text \<open>
  Three distinct items of weights 1, 5 and 1, two draws of \<open>3/4\<close>: the first round draws
  \<^verbatim>\<open>b\<close> and goes on with the pool of \<^verbatim>\<open>a\<close> and \<^verbatim>\<open>c\<close>, both of weight 1, from
  which the second draws \<^verbatim>\<open>c\<close>.
\<close>

theorem weightedSampleSizeWithoutReplacement_draws_witness:
  "(\<exists>result. weightedSampleSizeWithoutReplacement plain_kind (const_draw (3/4))
        [''a'', ''b'', ''c''] [1, 5, 1] 2 = Inr result \<and>
      int (length result) \<le> 2 \<and> distinct result) \<and>
   without_replacement_loop plain_kind (const_draw (3/4)) 0 2 [''a'', ''b'', ''c''] [1, 5, 1] []
     = without_replacement_loop plain_kind (const_draw (3/4)) 1 2 [''a'', ''c''] [1, 1] [''b''] \<and>
   weightedSampleSizeWithoutReplacement plain_kind (const_draw (3/4))
        [''a'', ''b'', ''c''] [1, 5, 1] 2 = Inr [''b'', ''c'']"
proof -
  have h: "length [''a'', ''b'', ''c''] = length [1, 5, 1 :: real]"
    "\<forall>w\<in>set [1, 5, 1 :: real]. 0 \<le> w"
    by simp_all
  note t = weightedSampleSizeWithoutReplacement_draws
    [OF h, of plain_kind "const_draw (3/4)" 2]
  from t have first: "\<exists>result. weightedSampleSizeWithoutReplacement plain_kind (const_draw (3/4))
        [''a'', ''b'', ''c''] [1, 5, 1] 2 = Inr result \<and>
      int (length result) \<le> 2 \<and> distinct result"
    by (auto simp: plain_kind_def)
  have "real_of_int 0 < 2 \<and> distinct [''a'', ''b'', ''c''] \<and>
      (\<forall>x\<in>set [''a'', ''b'', ''c'']. plain_kind x = Plain) \<and>
      length [''a'', ''b'', ''c''] = length [1, 5, 1 :: real] \<and>
      weightedSample (const_draw (3/4) 0) [''a'', ''b'', ''c''] [1, 5, 1] = Inr (Some ''b'')"
    by (simp add: weightedSample_def const_draw_def plain_kind_def)
  from t [THEN conjunct2, rule_format, OF this, of "[]"] have step:
    "without_replacement_loop plain_kind (const_draw (3/4)) 0 2 [''a'', ''b'', ''c''] [1, 5, 1] []
     = without_replacement_loop plain_kind (const_draw (3/4)) 1 2 [''a'', ''c''] [1, 1] [''b'']"
    by simp
  have "without_replacement_loop plain_kind (const_draw (3/4)) 1 2 [''a'', ''c''] [1, 1] [''b'']
      = Inr [''b'', ''c'']"
    by (simp add: weightedSample_def const_draw_def indexOf_def splice1_def triple_equals_def
        plain_kind_def)
  with step have "weightedSampleSizeWithoutReplacement plain_kind (const_draw (3/4))
        [''a'', ''b'', ''c''] [1, 5, 1] 2 = Inr [''b'', ''c'']"
    by (simp add: weightedSampleSizeWithoutReplacement_def)
  with first step show ?thesis by blast
qed

text \<open>
  Claim C3 as stated fails for items that hold a value twice: both copies are drawn.
\<close>

theorem weightedSampleSizeWithoutReplacement_duplicates_counterexample:
  "weightedSampleSizeWithoutReplacement plain_kind (const_draw (1/2)) [''a'', ''a''] [1, 1] 2
     = Inr [''a'', ''a''] \<and> \<not> distinct [''a'', ''a'']"
  by (simp add: weightedSampleSizeWithoutReplacement_def weightedSample_def const_draw_def
      indexOf_def splice1_def triple_equals_def plain_kind_def)

text \<open>
  The conditions of the amended claim are needed. For the items NaN and 1, the draw
  \<open>0\<close> selects NaN, \<^verbatim>\<open>indexOf\<close> does not find it and answers \<open>-1\<close>, and
  \<^verbatim>\<open>splice(-1, 1)\<close> removes the last pair instead: NaN is returned twice. For the
  requested size \<open>1/2\<close> one round runs, and one element is returned. An item that is
  itself \<^verbatim>\<open>undefined\<close> is drawn without being returned or removed.
\<close>

lemma without_replacement_nan_items:
  "weightedSampleSizeWithoutReplacement number_kind (const_draw 0) [NaN, Finite 1] [1, 1] 2
     = Inr [NaN, NaN]"
  by (simp add: weightedSampleSizeWithoutReplacement_def weightedSample_def const_draw_def
      indexOf_def splice1_def triple_equals_def number_kind_def)

lemma without_replacement_fractional_size:
  "weightedSampleSizeWithoutReplacement plain_kind (const_draw (1/2)) [''a'', ''b''] [1, 1] (1/2)
     = Inr [''a'']"
  by (simp add: weightedSampleSizeWithoutReplacement_def weightedSample_def const_draw_def
      indexOf_def splice1_def triple_equals_def plain_kind_def)

lemma without_replacement_undefined_item:
  "weightedSampleSizeWithoutReplacement optional_kind (const_draw 0) [None, Some ''a''] [1, 1] 2
     = Inr []"
  by (simp add: weightedSampleSizeWithoutReplacement_def weightedSample_def const_draw_def
      optional_kind_def)

text \<open>
  Claim C9, as the code has it. \<^verbatim>\<open>weightedAverage\<close>, \<^verbatim>\<open>weightedSum\<close>,
  \<^verbatim>\<open>weightedMax\<close> and \<^verbatim>\<open>weightedMin\<close> test for an empty sequence first: with an
  empty sequence on either side they return \<open>0\<close>, \<open>0\<close>, \<^verbatim>\<open>undefined\<close> and
  \<^verbatim>\<open>undefined\<close>, also when the other side is not empty, and they fail with
  \<open>LengthMismatch\<close> when two non-empty sequences differ in length.
  \<^verbatim>\<open>weightedFrequency\<close> tests the lengths first: it fails with \<open>LengthMismatch\<close>
  whenever they differ, and returns the empty map for two empty sequences.
\<close>

theorem weighted_aggregates_length_contract:
  "(vals = [] \<or> weights = [] \<longrightarrow>
      weightedAverage vals weights = Inr 0 \<and> weightedSum vals weights = Inr 0) \<and>
   (vals \<noteq> [] \<and> weights \<noteq> [] \<and> length vals \<noteq> length weights \<longrightarrow>
      weightedAverage vals weights = Inl LengthMismatch \<and>
      weightedSum vals weights = Inl LengthMismatch) \<and>
   (array = [] \<or> weights = [] \<longrightarrow>
      weightedMax array weights = Inr None \<and> weightedMin array weights = Inr None) \<and>
   (array \<noteq> [] \<and> weights \<noteq> [] \<and> length array \<noteq> length weights \<longrightarrow>
      weightedMax array weights = Inl LengthMismatch \<and>
      weightedMin array weights = Inl LengthMismatch) \<and>
   (length array \<noteq> length weights \<longrightarrow> weightedFrequency array weights = Inl LengthMismatch) \<and>
   (array = [] \<and> weights = [] \<longrightarrow> weightedFrequency array weights = Inr [])"
proof (intro conjI impI)
  assume "vals = [] \<or> weights = []"
  then show "weightedAverage vals weights = Inr 0" and "weightedSum vals weights = Inr 0"
    by (simp_all add: weightedAverage_def weightedSum_def)
next
  assume "vals \<noteq> [] \<and> weights \<noteq> [] \<and> length vals \<noteq> length weights"
  then show "weightedAverage vals weights = Inl LengthMismatch"
    and "weightedSum vals weights = Inl LengthMismatch"
    by (simp_all add: weightedAverage_def weightedSum_def)
next
  assume "array = [] \<or> weights = []"
  then show "weightedMax array weights = Inr None" and "weightedMin array weights = Inr None"
    by (simp_all add: weightedMax_def weightedMin_def)
next
  assume "array \<noteq> [] \<and> weights \<noteq> [] \<and> length array \<noteq> length weights"
  then show "weightedMax array weights = Inl LengthMismatch"
    and "weightedMin array weights = Inl LengthMismatch"
    by (simp_all add: weightedMax_def weightedMin_def)
next
  assume "length array \<noteq> length weights"
  then show "weightedFrequency array weights = Inl LengthMismatch"
    by (simp add: weightedFrequency_def)
next
  assume "array = [] \<and> weights = []"
  then show "weightedFrequency array weights = Inr []"
    by (simp add: weightedFrequency_def)
qed

text \<open>
  One input for each case.
\<close>

theorem weighted_aggregates_length_contract_witness:
  "weightedAverage [1] [] = Inr 0 \<and> weightedSum [] [2] = Inr 0 \<and>
   weightedAverage [1, 2] [1] = Inl LengthMismatch \<and>
   weightedSum [1, 2] [1] = Inl LengthMismatch \<and>
   weightedMax [''a''] [] = Inr None \<and> weightedMin [''a''] [] = Inr None \<and>
   weightedMax [''a'', ''b''] [1] = Inl LengthMismatch \<and>
   weightedMin [''a'', ''b''] [1] = Inl LengthMismatch \<and>
   weightedFrequency [''a''] [] = Inl LengthMismatch \<and>
   weightedFrequency ([] :: string list) [] = Inr []"
  using
    weighted_aggregates_length_contract
      [where vals = "[1]" and weights = "[]" and array = "[''a'']"]
    weighted_aggregates_length_contract
      [where vals = "[]" and weights = "[2]" and array = "[] :: string list"]
    weighted_aggregates_length_contract
      [where vals = "[1, 2]" and weights = "[1]" and array = "[''a'', ''b'']"]
    weighted_aggregates_length_contract
      [where vals = "[]" and weights = "[]" and array = "[] :: string list"]
  by simp

text \<open>
  Claim C9 as stated fails: on one value and no weights the five operations do not follow
  one rule. \<^verbatim>\<open>weightedAverage\<close> accepts the input, \<^verbatim>\<open>weightedFrequency\<close> fails, so
  neither "unequal lengths fail" nor "a zero-length side is accepted" holds for every
  operation.
\<close>

theorem weighted_aggregates_zero_length_counterexample:
  "\<not> ((weightedAverage [1] [] = Inl LengthMismatch \<and>
         weightedFrequency [''a''] [] = Inl LengthMismatch) \<or>
        (weightedAverage [1] [] = Inr 0 \<and> weightedFrequency [''a''] [] = Inr []))"
  by (simp add: weightedAverage_def weightedFrequency_def)

section \<open>Properties of the checksum validation\<close>

lemma luhn_loop_sum:
  "luhn_loop cs s (odd k) = s + (\<Sum>i < length cs. luhn_term (k + i) (parseInt (cs ! i)))"
proof (induction cs arbitrary: s k)
  case Nil
  then show ?case by simp
next
  case (Cons c cs)
  have "luhn_loop (c # cs) s (odd k) = luhn_loop cs (s + luhn_term k (parseInt c)) (odd (Suc k))"
    by (simp add: luhn_term_def Let_def mult.commute)
  also have "\<dots> = s + luhn_term k (parseInt c)
      + (\<Sum>i < length cs. luhn_term (Suc k + i) (parseInt (cs ! i)))"
    by (rule Cons.IH)
  also have "\<dots> = s + (\<Sum>i < length (c # cs). luhn_term (k + i) (parseInt ((c # cs) ! i)))"
    by (simp add: sum.lessThan_Suc_shift del: sum.lessThan_Suc)
  finally show ?case .
qed

lemma luhn_loop_luhn_sum:
  "luhn_loop (rev cleaned) 0 False = luhn_sum (map parseInt cleaned)"
proof -
  have "luhn_loop (rev cleaned) 0 (odd (0::nat))
      = 0 + (\<Sum>i < length (rev cleaned). luhn_term (0 + i) (parseInt (rev cleaned ! i)))"
    by (rule luhn_loop_sum)
  also have "\<dots> = (\<Sum>i < length cleaned. luhn_term i (rev (map parseInt cleaned) ! i))"
    by (simp add: rev_map)
  finally show ?thesis by (simp add: luhn_sum_def)
qed

text \<open>
  Claim C8: \<^verbatim>\<open>isValidCreditCard\<close> and \<^verbatim>\<open>isCreditCard\<close> drop every character that is
  not a digit, answer false when fewer than 13 or more than 19 digits remain, and otherwise
  answer whether the Luhn sum of the digits is divisible by 10;
  \<^verbatim>\<open>isValidCreditCard("4532015112830366")\<close> is true and
  \<^verbatim>\<open>isValidCreditCard("1234567890123456")\<close> is false.
\<close>

theorem luhn_credit_card:
  "isValidCreditCard str =
     (13 \<le> length (digits_of str) \<and> length (digits_of str) \<le> 19 \<and>
      luhn_sum (digits_of str) mod 10 = 0) \<and>
   isCreditCard str =
     (13 \<le> length (digits_of str) \<and> length (digits_of str) \<le> 19 \<and>
      luhn_sum (digits_of str) mod 10 = 0) \<and>
   isValidCreditCard ''4532015112830366'' \<and>
   \<not> isValidCreditCard ''1234567890123456''"
proof (intro conjI)
  show "isValidCreditCard str =
     (13 \<le> length (digits_of str) \<and> length (digits_of str) \<le> 19 \<and>
      luhn_sum (digits_of str) mod 10 = 0)"
    by (auto simp: isValidCreditCard_def digits_of_def luhn_loop_luhn_sum Let_def)
  show "isCreditCard str =
     (13 \<le> length (digits_of str) \<and> length (digits_of str) \<le> 19 \<and>
      luhn_sum (digits_of str) mod 10 = 0)"
    by (auto simp: isCreditCard_def digits_of_def luhn_loop_luhn_sum Let_def)
  show "isValidCreditCard ''4532015112830366''"
    by (simp add: isValidCreditCard_def is_digit_def parseInt_def)
  show "\<not> isValidCreditCard ''1234567890123456''"
    by (simp add: isValidCreditCard_def is_digit_def parseInt_def)
qed

text \<open>
  A number written with dashes: the loop accepts it, so its 16 digits have a Luhn sum
  divisible by 10.
\<close>

theorem luhn_credit_card_witness:
  "13 \<le> length (digits_of ''4532-0151-1283-0366'') \<and>
   length (digits_of ''4532-0151-1283-0366'') \<le> 19 \<and>
   luhn_sum (digits_of ''4532-0151-1283-0366'') mod 10 = 0"
proof -
  have "isValidCreditCard ''4532-0151-1283-0366''"
    by (simp add: isValidCreditCard_def is_digit_def parseInt_def)
  with luhn_credit_card [of "''4532-0151-1283-0366''"] show ?thesis by blast
qed

section \<open>Properties of the object utilities\<close>

lemma num_equal_refl: "num_equal t t \<longleftrightarrow> t \<noteq> NaN"
  by (cases t) auto

lemma prim_equal_refl: "prim_equal p p \<longleftrightarrow> p \<noteq> PNum NaN"
  by (cases p) (auto simp: num_equal_refl)

lemma map_st_rel:
  assumes "map_st f xs n = (ys, n')" and "\<And>x k. x \<in> set xs \<Longrightarrow> R (fst (f x k)) x"
  shows "list_all2 R ys xs"
  using assms
proof (induction xs arbitrary: n ys n')
  case Nil
  then show ?case by simp
next
  case (Cons x xs)
  obtain y n1 where f: "f x n = (y, n1)" by (cases "f x n")
  obtain zs n2 where m: "map_st f xs n1 = (zs, n2)" by (cases "map_st f xs n1")
  from Cons.prems(1) f m have ys: "ys = y # zs" by simp
  have "R y x" using Cons.prems(2) [of x n] f by simp
  moreover have "list_all2 R zs xs" using Cons.IH [OF m] Cons.prems(2) by simp
  ultimately show ?case using ys by simp
qed

lemma map_st_mono:
  assumes "\<And>x k. x \<in> set xs \<Longrightarrow> k \<le> snd (f x k)"
  shows "n \<le> snd (map_st f xs n)"
  using assms
proof (induction xs arbitrary: n)
  case Nil
  then show ?case by simp
next
  case (Cons x xs)
  obtain y n1 where f: "f x n = (y, n1)" by (cases "f x n")
  obtain zs n2 where m: "map_st f xs n1 = (zs, n2)" by (cases "map_st f xs n1")
  have "n \<le> n1" using Cons.prems [of x n] f by simp
  moreover have "n1 \<le> n2" using Cons.IH [of n1] Cons.prems m by simp
  ultimately show ?case using f m by simp
qed

lemma deepClone_mono: "n \<le> snd (deepClone v n)"
proof (induction v n rule: deepClone.induct)
  case (3 r xs n)
  have "Suc n \<le> snd (map_st deepClone xs (Suc n))"
    by (rule map_st_mono) (rule 3)
  then show ?case by (simp add: split_beta)
next
  case (4 r xs n)
  have "n \<le> snd (map_st deepClone xs n)"
    by (rule map_st_mono) (rule 4)
  then show ?case by (simp add: split_beta)
next
  case (5 r es n)
  let ?f = "\<lambda>(key, value) k.
                  let (key', k1) = deepClone key k; (value', k2) = deepClone value k1
                  in ((key', value'), k2)"
  have "Suc n \<le> snd (map_st ?f es (Suc n))"
  proof (rule map_st_mono)
    fix x k assume x: "x \<in> set es"
    obtain key val where kv: "x = (key, val)" by (cases x)
    have "k \<le> snd (deepClone key k)" using 5(1) [OF x kv [symmetric]] .
    also have "\<dots> \<le> snd (deepClone val (snd (deepClone key k)))"
      using 5(2) [OF x kv [symmetric] refl, of "fst (deepClone key k)" "snd (deepClone key k)"]
      by simp
    finally show "k \<le> snd (?f x k)" by (simp add: kv split_beta)
  qed
  then show ?case by (simp add: split_beta)
next
  case (6 r ps n)
  let ?f = "\<lambda>(key, value) k. let (value', k1) = deepClone value k in ((key, value'), k1)"
  have "Suc n \<le> snd (map_st ?f ps (Suc n))"
  proof (rule map_st_mono)
    fix x k assume x: "x \<in> set ps"
    obtain key val where kv: "x = (key, val)" by (cases x)
    have "k \<le> snd (deepClone val k)" using 6 [OF x kv [symmetric]] .
    then show "k \<le> snd (?f x k)" by (simp add: kv split_beta)
  qed
  then show ?case by (simp add: split_beta)
qed simp_all

lemma deepClone_ref: "ref_of (fst (deepClone v n)) = Some r' \<Longrightarrow> n \<le> r'"
proof (cases v)
  case (JSet r xs)
  assume a: "ref_of (fst (deepClone v n)) = Some r'"
  have "n \<le> snd (map_st deepClone xs n)"
    by (rule map_st_mono) (rule deepClone_mono)
  with a JSet show ?thesis by (simp add: split_beta)
qed (auto simp: split_beta)

lemma map_of_rel:
  assumes "list_all2 (\<lambda>(k', v') (k, v). k' = k \<and> P v' v) ps' ps"
  shows "rel_option P (map_of ps' key) (map_of ps key)"
  using assms by (induction ps' ps rule: list_all2_induct) auto

lemma map_fst_rel:
  assumes "list_all2 (\<lambda>(k', v') (k, v). k' = k \<and> P v' v) ps' ps"
  shows "map fst ps' = map fst ps"
  using assms by (induction ps' ps rule: list_all2_induct) auto

lemma deepEqual_clone:
  "nan_free v \<Longrightarrow> proto_free v \<Longrightarrow> deepEqual (fst (deepClone v n)) v"
proof (induction v n rule: deepClone.induct)
  case (1 p n)
  then show ?case by (subst deepEqual.simps) (simp add: prim_equal_refl)
next
  case (2 r t n)
  then show ?case by (subst deepEqual.simps) (simp add: num_equal_refl)
next
  case (3 r xs n)
  obtain ys n' where m: "map_st deepClone xs (Suc n) = (ys, n')"
    by (cases "map_st deepClone xs (Suc n)")
  have "list_all2 deepEqual ys xs"
  proof (rule map_st_rel [OF m])
    fix x k assume "x \<in> set xs"
    with 3 show "deepEqual (fst (deepClone x k)) x" by (simp add: list_all_iff)
  qed
  then show ?case using m by (subst deepEqual.simps) (simp add: list_all2_lengthD)
next
  case (4 r xs n)
  show ?case by (subst deepEqual.simps) (simp add: split_beta)
next
  case (5 r es n)
  show ?case by (subst deepEqual.simps) (simp add: split_beta)
next
  case (6 r ps n)
  let ?f = "\<lambda>(key, value) k. let (value', k1) = deepClone value k in ((key, value'), k1)"
  obtain ps' n' where m: "map_st ?f ps (Suc n) = (ps', n')"
    by (cases "map_st ?f ps (Suc n)")
  have rel: "list_all2 (\<lambda>(k', v') (k, v). k' = k \<and> deepEqual v' v) ps' ps"
  proof (rule map_st_rel [OF m])
    fix x k assume x: "x \<in> set ps"
    obtain key val where kv: "x = (key, val)" by (cases x)
    from x kv "6.prems" have "nan_free val" and "proto_free val"
      by (auto simp: list_all_iff)
    from "6.IH" [OF x kv [symmetric] this]
    show "(case fst (?f x k) of (k', v') \<Rightarrow> \<lambda>(k, v). k' = k \<and> deepEqual v' v) x"
      by (simp add: kv split_beta)
  qed
  have keys: "map fst ps' = map fst ps" using rel by (rule map_fst_rel)
  have "\<forall>key\<in>set (map fst ps). key \<noteq> ''__proto__''"
    using "6.prems"(2) by (auto simp: list_all_iff)
  then have "\<forall>p\<in>set ps'. fst p \<noteq> ''__proto__''"
    unfolding keys [symmetric] by simp
  then have own: "filter (\<lambda>(key, value). key \<noteq> ''__proto__'') ps' = ps'"
    by (intro filter_True) (auto simp: split_beta)
  have props: "deepEqual (get_prop (JObject n ps') key) (get_prop (JObject r ps) key)"
    if "key \<in> set (map fst ps)" for key
  proof -
    from that obtain v where v: "map_of ps key = Some v"
      by (metis map_of_eq_None_iff not_Some_eq set_map)
    from map_of_rel [OF rel, of key] v obtain v' where
      "map_of ps' key = Some v'" "deepEqual v' v"
      by (cases "map_of ps' key") auto
    with v show ?thesis by simp
  qed
  have "deepClone (JObject r ps) n = (JObject n ps', n')" using m own by simp
  then show ?case
    by (subst deepEqual.simps) (simp add: keys props list_all_iff del: get_prop.simps)
qed

lemma clone_not_identical:
  assumes "allocated_below n v" and "\<not> is_Prim v"
  shows "\<not> strict_equal (fst (deepClone v n)) v"
proof -
  from assms obtain r where r: "ref_of v = Some r" "r < n" by (cases v) auto
  have "ref_of (fst (deepClone v n)) \<noteq> None" using r(1) by (cases v) (auto simp: split_beta)
  then obtain r' where r': "ref_of (fst (deepClone v n)) = Some r'" by blast
  then have "n \<le> r'" by (rule deepClone_ref)
  with r r' show ?thesis
    by (cases v; cases "fst (deepClone v n)") auto
qed

text \<open>
  Claim C2, as the code has it. If, on the way through the sequences and records of \<open>v\<close>,
  no NaN is met (as a number, or as the time of an invalid \<^verbatim>\<open>Date\<close>) and no record has
  an own property named \<^verbatim>\<open>__proto__\<close>, then \<^verbatim>\<open>deepEqual(deepClone(v), v)\<close> is true;
  and if \<open>v\<close> is an object, its clone is a different object:
  \<^verbatim>\<open>deepClone(v) === v\<close> is false.
\<close>

theorem deepClone_deepEqual:
  "(nan_free v \<and> proto_free v \<longrightarrow> deepEqual (fst (deepClone v n)) v) \<and>
   (allocated_below n v \<and> \<not> is_Prim v \<longrightarrow> \<not> strict_equal (fst (deepClone v n)) v)"
proof (intro conjI impI)
  assume "nan_free v \<and> proto_free v"
  then show "deepEqual (fst (deepClone v n)) v" by (simp add: deepEqual_clone)
next
  assume "allocated_below n v \<and> \<not> is_Prim v"
  then show "\<not> strict_equal (fst (deepClone v n)) v" by (simp add: clone_not_identical)
qed

text \<open>
  A record holding a number and an array with \<^verbatim>\<open>null\<close> and a \<^verbatim>\<open>Date\<close>.
\<close>

theorem deepClone_deepEqual_witness:
  "deepEqual
     (fst (deepClone
        (JObject 0 [(''a'', Prim (PNum (Finite 1))),
                    (''b'', JArray 1 [Prim PNull, JDate 2 (Finite 0)])]) 3))
     (JObject 0 [(''a'', Prim (PNum (Finite 1))),
                 (''b'', JArray 1 [Prim PNull, JDate 2 (Finite 0)])]) \<and>
   \<not> strict_equal
     (fst (deepClone
        (JObject 0 [(''a'', Prim (PNum (Finite 1))),
                    (''b'', JArray 1 [Prim PNull, JDate 2 (Finite 0)])]) 3))
     (JObject 0 [(''a'', Prim (PNum (Finite 1))),
                 (''b'', JArray 1 [Prim PNull, JDate 2 (Finite 0)])])"
  using deepClone_deepEqual
    [of "JObject 0 [(''a'', Prim (PNum (Finite 1))),
                    (''b'', JArray 1 [Prim PNull, JDate 2 (Finite 0)])]" 3]
  by simp

text \<open>
  Claim C2 as stated fails for the array \<^verbatim>\<open>[NaN]\<close>: the clone holds NaN as well, and
  \<^verbatim>\<open>deepEqual\<close> compares numbers with \<^verbatim>\<open>===\<close>, under which NaN differs from
  itself.
\<close>

theorem deepClone_nan_counterexample:
  "\<not> deepEqual (fst (deepClone (JArray 0 [Prim (PNum NaN)]) 1)) (JArray 0 [Prim (PNum NaN)])"
  by (simp add: deepEqual.simps)

text \<open>
  The second condition of the amended claim is needed as well: the clone of a record with
  the one own property \<^verbatim>\<open>__proto__\<close> has no own property, and \<^verbatim>\<open>deepEqual\<close>
  finds one key on one side and none on the other.
\<close>

lemma deepClone_proto_key:
  "deepClone (JObject 0 [(''__proto__'', Prim (PNum (Finite 1)))]) 1 = (JObject 1 [], 2) \<and>
   \<not> deepEqual (fst (deepClone (JObject 0 [(''__proto__'', Prim (PNum (Finite 1)))]) 1))
                (JObject 0 [(''__proto__'', Prim (PNum (Finite 1)))])"
  by (simp add: deepEqual.simps)

text \<open>
  The mismatches that \<^verbatim>\<open>deepEqual\<close> does reject: values of different
  \<^verbatim>\<open>typeof\<close>, and an array against a value that is no array.
\<close>

lemma strict_equal_typeof: "strict_equal a b \<Longrightarrow> typeof a = typeof b"
proof (cases a)
  case (Prim p)
  assume s: "strict_equal a b"
  show ?thesis
  proof (cases b)
    case (Prim q)
    with s \<open>a = Prim p\<close> have "prim_equal p q" by simp
    then have "typeof (Prim p) = typeof (Prim q)"
      by (cases p; cases q) auto
    with Prim \<open>a = Prim p\<close> show ?thesis by simp
  qed (use s \<open>a = Prim p\<close> in auto)
qed (cases b; auto)+

lemma deepEqual_typeof_mismatch: "typeof a \<noteq> typeof b \<Longrightarrow> \<not> deepEqual a b"
  using strict_equal_typeof [of a b] by (subst deepEqual.simps) auto

lemma deepEqual_array_mismatch:
  "is_Array a \<noteq> is_Array b \<Longrightarrow> \<not> strict_equal a b \<Longrightarrow> \<not> deepEqual a b"
  by (subst deepEqual.simps) auto

text \<open>
  Claim C4 fails on the code: a \<^verbatim>\<open>Date\<close> and the empty record are values of
  different kinds, and \<^verbatim>\<open>deepEqual(new Date(0), {})\<close> is true. The test for two dates
  does not apply, neither value is an array, and both have no own enumerable keys.
\<close>

theorem deepEqual_date_record:
  "is_Date (JDate 0 (Finite 0)) \<and> \<not> is_Date (JObject 1 []) \<and>
   deepEqual (JDate 0 (Finite 0)) (JObject 1 []) = True"
  by (simp add: deepEqual.simps)

text \<open>
  The cases in which \<^verbatim>\<open>get\<close> does return the default: the current value is
  \<^verbatim>\<open>null\<close> or \<^verbatim>\<open>undefined\<close>, or it is an object without the property.
\<close>

lemma get_walk_absent:
  "current = Prim PNull \<or> current = Prim PUndefined \<or> has_in key current = Inr False \<Longrightarrow>
   get_walk current (key # keys) defaultValue = Inr defaultValue"
  by auto

text \<open>
  Claim C5 fails on the code: in \<^verbatim>\<open>get({a: 1}, "a.b", "default")\<close> the segment
  \<^verbatim>\<open>a\<close> resolves to the number 1, which cannot be traversed, and the test
  \<^verbatim>\<open>"b" in 1\<close> raises a \<open>TypeError\<close> where the claim promises the default.
\<close>

theorem get_primitive_intermediate:
  "get (JObject 0 [(''a'', Prim (PNum (Finite 1)))]) ''a.b'' (Prim (PStr ''default''))
     = Inl TypeError"
  by (simp add: get_def)

text \<open>
  Claim C6 fails on the code: in \<^verbatim>\<open>set({a: null}, "a.b", 1)\<close> the value at
  \<^verbatim>\<open>a\<close> is \<^verbatim>\<open>null\<close>, for which \<^verbatim>\<open>typeof\<close> answers \<^verbatim>\<open>'object'\<close>; no
  record is created there, and the assignment at the last segment raises a
  \<open>TypeError\<close>.
\<close>

theorem set_null_intermediate:
  "set_path (JObject 0 [(''a'', Prim PNull)]) ''a.b'' (Prim (PNum (Finite 1))) 1
     = Inl TypeError"
  by (simp add: set_path_def and_then_def)

text \<open>
  Claim C7, as the code has it. The empty path is split into one segment, the empty
  string, and is treated like every other one-segment path. On a record,
  \<^verbatim>\<open>get(obj, "")\<close> returns the value of the property named \<^verbatim>\<open>""\<close> if the record
  has one and the default otherwise, \<^verbatim>\<open>has(obj, "")\<close> tells whether the record has
  such a property, and \<^verbatim>\<open>set(obj, "", value)\<close> is accepted and assigns that
  property.
\<close>

theorem empty_path:
  "get (JObject r ps) '''' defaultValue
     = Inr (case map_of ps '''' of Some v \<Rightarrow> v | None \<Rightarrow> defaultValue) \<and>
   has (JObject r ps) '''' = Inr ('''' \<in> set (map fst ps)) \<and>
   set_path (JObject r ps) '''' value n = Inr (JObject r (AList.update '''' value ps), n)"
proof (intro conjI)
  show "get (JObject r ps) '''' defaultValue
     = Inr (case map_of ps '''' of Some v \<Rightarrow> v | None \<Rightarrow> defaultValue)"
  proof (cases "map_of ps ''''")
    case None
    then have "'''' \<notin> set (map fst ps)" by (simp add: map_of_eq_None_iff)
    with None show ?thesis by (simp add: get_def)
  next
    case (Some v)
    then have "'''' \<in> set (map fst ps)" by (metis map_of_eq_None_iff option.distinct(1) set_map)
    with Some show ?thesis by (simp add: get_def)
  qed
  show "has (JObject r ps) '''' = Inr ('''' \<in> set (map fst ps))"
    by (simp add: has_def)
  show "set_path (JObject r ps) '''' value n = Inr (JObject r (AList.update '''' value ps), n)"
    by (simp add: set_path_def and_then_def)
qed

text \<open>
  A record with a property named \<^verbatim>\<open>""\<close> and one without.
\<close>

theorem empty_path_witness:
  "get (JObject 0 [(''a'', Prim (PBool True)), ('''', Prim (PStr ''x''))]) ''''
       (Prim (PStr ''default'')) = Inr (Prim (PStr ''x'')) \<and>
   has (JObject 0 [(''a'', Prim (PBool True)), ('''', Prim (PStr ''x''))]) '''' = Inr True \<and>
   get (JObject 0 [(''a'', Prim (PBool True))]) '''' (Prim (PStr ''default''))
     = Inr (Prim (PStr ''default'')) \<and>
   has (JObject 0 [(''a'', Prim (PBool True))]) '''' = Inr False \<and>
   set_path (JObject 0 [(''a'', Prim (PBool True))]) '''' (Prim (PStr ''x'')) 1
     = Inr (JObject 0 [(''a'', Prim (PBool True)), ('''', Prim (PStr ''x''))], 1)"
  using
    empty_path [of 0 "[(''a'', Prim (PBool True)), ('''', Prim (PStr ''x''))]"
      "Prim (PStr ''default'')" "Prim (PStr ''x'')" 1]
    empty_path [of 0 "[(''a'', Prim (PBool True))]"
      "Prim (PStr ''default'')" "Prim (PStr ''x'')" 1]
  by simp

text \<open>
  Claim C7 as stated fails: \<^verbatim>\<open>get({a: true}, "", "default")\<close> returns the default,
  not the object.
\<close>

theorem empty_path_counterexample:
  "get (JObject 0 [(''a'', Prim (PBool True))]) '''' (Prim (PStr ''default''))
     \<noteq> Inr (JObject 0 [(''a'', Prim (PBool True))])"
  by (simp add: get_def)

end
